theory Spec2Isabelle
  imports Main "HOL-Library.Sublist"
begin

section \<open>The ctypes wrapper \<open>gmt.clib.core.LibGMT\<close>\<close>

text \<open>
  \<open>LibGMT\<close> is an adapter around the native GMT library. The model keeps the Python
  control flow of every method and makes explicit what the methods touch:
  \<^item> the native library, a record of functions (the bound \<open>_c_*\<close> attributes);
  \<^item> the object's attributes and the part of the world the methods act on (the files on
    disk), a record that every method takes and returns;
  \<^item> exceptions, as the left summand of the result of a method.
  Every call of a native function is appended to a trace, with its arguments and its
  result, so that statements about which native functions were invoked, in which order and
  with which arguments, are statements about that list.

  Python strings are \<^typ>\<open>string\<close>; a character stands for a code point below 256 and
  \<open>str.encode\<close> is the identity. Python and C integers are \<^typ>\<open>int\<close>; a \<open>void *\<close>
  returned through ctypes is a \<^typ>\<open>nat option\<close>, \<open>None\<close> for \<open>NULL\<close>.
\<close>

subsection \<open>Exceptions and results\<close>

text \<open>
  Modelled from the spec: the exception classes \<open>GMTCLibError\<close> and
  \<open>GMTCLibNoSessionError\<close> of \<open>gmt.exceptions\<close>, which is not among the sources. The
  spec has non-zero return codes of native calls translated into a single error category
  and the absence of a valid session be a distinct error category of its own; each carries
  its message. \<open>FileNotFoundError\<close> is Python's own, raised by \<open>open\<close> and
  \<open>os.remove\<close> on a path that does not exist.
\<close>

datatype exn =
    GMTCLibError string
  | GMTCLibNoSessionError string
  | FileNotFoundError string

text \<open>A C double: the wrapper only passes such values on.\<close>

typedecl c_double

type_synonym fs = "string \<rightharpoonup> string"

datatype native_call =
    Get_Enum string "int option"
  | Create_Session string int int "nat option" "nat option"
  | Destroy_Session nat int
  | Handle_Messages nat int int string int
  | Call_Module nat string int string int
  | Create_Data nat int int int "int list option" "c_double list option"
      "c_double list option" int int "nat option" "nat option"

text \<open>
  The native entry points bound by \<open>_bind_clib_functions\<close>, and the name that
  \<open>NamedTemporaryFile\<close> picks. \<open>GMT_Handle_Messages\<close> and \<open>GMT_Call_Module\<close> write
  diagnostics to files, so they read and return the file system. The last argument of
  \<open>c_create_session\<close> is the print function pointer, the last one of \<open>c_create_data\<close>
  the existing data pointer.
\<close>

record env =
  c_get_enum :: "string \<Rightarrow> int option"
  c_create_session :: "string \<Rightarrow> int \<Rightarrow> int \<Rightarrow> nat option \<Rightarrow> nat option"
  c_destroy_session :: "nat \<Rightarrow> int"
  c_handle_messages :: "nat \<Rightarrow> int \<Rightarrow> int \<Rightarrow> string \<Rightarrow> fs \<Rightarrow> int \<times> fs"
  c_call_module :: "nat \<Rightarrow> string \<Rightarrow> int \<Rightarrow> string \<Rightarrow> fs \<Rightarrow> int \<times> fs"
  c_create_data :: "nat \<Rightarrow> int \<Rightarrow> int \<Rightarrow> int \<Rightarrow> int list option \<Rightarrow>
     c_double list option \<Rightarrow> c_double list option \<Rightarrow> int \<Rightarrow> int \<Rightarrow> nat option \<Rightarrow> nat option"
  tmp_name :: "fs \<Rightarrow> string"

text \<open>
  The attributes \<open>_logfile\<close> and \<open>_session_id\<close> of the object, the files on disk, the
  names of the temporary files created so far, and the trace of native calls.
\<close>

record state =
  logfile_attr :: "string option"
  session_id :: "nat option"
  files :: fs
  tmpfiles :: "string list"
  calls :: "native_call list"

type_synonym 'a comp = "state \<Rightarrow> (exn + 'a) \<times> state"

definition ret :: "'a \<Rightarrow> 'a comp" where
  "ret v s = (Inr v, s)"

definition raise_exn :: "exn \<Rightarrow> 'a comp" where
  "raise_exn e s = (Inl e, s)"

text \<open>Sequencing: an exception of the first part skips the rest.\<close>

definition and_then :: "'a comp \<Rightarrow> ('a \<Rightarrow> 'b comp) \<Rightarrow> 'b comp" where
  "and_then m f s = (case m s of (Inl e, s') \<Rightarrow> (Inl e, s') | (Inr v, s') \<Rightarrow> f v s')"

text \<open>
  \<open>try: m finally: fin\<close>. The handler runs on every outcome of \<open>m\<close>; an exception of
  the handler replaces the outcome.
\<close>

definition try_finally :: "'a comp \<Rightarrow> unit comp \<Rightarrow> 'a comp" where
  "try_finally m fin s =
     (case m s of (r, s1) \<Rightarrow>
        (case fin s1 of (Inl e, s2) \<Rightarrow> (Inl e, s2) | (Inr _, s2) \<Rightarrow> (r, s2)))"

subsection \<open>Strings\<close>

definition apostrophe :: string where
  "apostrophe = [CHR 0x27]"

definition newline :: string where
  "newline = [CHR 0x0A]"

text \<open>\<open>sep.join(xs)\<close>\<close>

fun str_join :: "string \<Rightarrow> string list \<Rightarrow> string" where
  "str_join sep [] = []"
| "str_join sep [x] = x"
| "str_join sep (x # y # ys) = x @ sep @ str_join sep (y # ys)"

text \<open>\<open>s.split(c)\<close> for a separator of one character.\<close>

fun split_on :: "char \<Rightarrow> string \<Rightarrow> string list" where
  "split_on c [] = [] # []"
| "split_on c (x # xs) =
     (if x = c then [] # split_on c xs
      else (case split_on c xs of [] \<Rightarrow> [x] # [] | p # ps \<Rightarrow> (x # p) # ps))"

text \<open>
  \<open>s.strip()\<close>: the characters below 256 for which \<open>str.isspace\<close> holds are removed
  from both ends.
\<close>

definition is_space :: "char \<Rightarrow> bool" where
  "is_space c = (of_char c \<in> {9, 10, 11, 12, 13, 28, 29, 30, 31, 32, 133, 160 :: nat})"

definition strip :: "string \<Rightarrow> string" where
  "strip t = rev (dropWhile is_space (rev (dropWhile is_space t)))"

text \<open>\<open>str(i)\<close> for an integer.\<close>

fun str_nat :: "nat \<Rightarrow> string" where
  "str_nat n =
     (if n < 10 then [char_of (48 + n)] else str_nat (n div 10) @ [char_of (48 + n mod 10)])"

declare str_nat.simps [simp del]

definition str_int :: "int \<Rightarrow> string" where
  "str_int i = (if i < 0 then CHR ''-'' # str_nat (nat (- i)) else str_nat (nat i))"

subsection \<open>The class attributes\<close>

definition data_families :: "string list" where
  "data_families =
     [''GMT_IS_DATASET'', ''GMT_IS_GRID'', ''GMT_IS_PALETTE'', ''GMT_IS_MATRIX'',
      ''GMT_IS_VECTOR'']"

definition data_vias :: "string list" where
  "data_vias = [''GMT_VIA_MATRIX'', ''GMT_VIA_VECTOR'']"

definition data_geometries :: "string list" where
  "data_geometries =
     [''GMT_IS_NONE'', ''GMT_IS_POINT'', ''GMT_IS_LINE'', ''GMT_IS_POLYGON'', ''GMT_IS_PLP'',
      ''GMT_IS_SURFACE'']"

definition data_modes :: "string list" where
  "data_modes = [''GMT_CONTAINER_ONLY'', ''GMT_OUTPUT'']"

subsection \<open>Session handling\<close>

text \<open>\<open>__init__\<close>: both attributes start as \<open>None\<close>.\<close>

definition init :: "fs \<Rightarrow> state" where
  "init disk =
     \<lparr>logfile_attr = None, session_id = None, files = disk, tmpfiles = [], calls = []\<rparr>"

text \<open>The property \<open>current_session\<close> and its setter.\<close>

definition current_session :: "nat comp" where
  "current_session s =
     (case session_id s of
        None \<Rightarrow>
          raise_exn (GMTCLibNoSessionError
            (str_join '' '' [''No currently open session.'',
               ''Call methods only inside a '' @ apostrophe @ ''with'' @ apostrophe @ '' block.''])) s
      | Some session \<Rightarrow> ret session s)"

definition set_current_session :: "nat option \<Rightarrow> unit comp" where
  "set_current_session session s = (Inr (), s\<lparr>session_id := session\<rparr>)"

definition get_constant :: "env \<Rightarrow> string \<Rightarrow> int comp" where
  "get_constant E name s =
     (let val = c_get_enum E name;
          s' = s\<lparr>calls := calls s @ [Get_Enum name val]\<rparr>
      in if val = None \<or> val = Some (- 99999)
         then raise_exn (GMTCLibError (''Constant '' @ apostrophe @ name @ apostrophe
                @ '' doesn'' @ apostrophe @ ''t exits in libgmt.'')) s'
         else ret (the val) s')"

definition create_session :: "env \<Rightarrow> string \<Rightarrow> nat comp" where
  "create_session E session_name =
     and_then (get_constant E ''GMT_PAD_DEFAULT'') (\<lambda>padding.
     and_then (get_constant E ''GMT_SESSION_EXTERNAL'') (\<lambda>session_type. (\<lambda>s.
       (let session = c_create_session E session_name padding session_type None;
            s' = s\<lparr>calls := calls s @
                   [Create_Session session_name padding session_type None session]\<rparr>
        in (case session of
              None \<Rightarrow> raise_exn (GMTCLibError ''Failed to create a GMT API void pointer.'') s'
            | Some p \<Rightarrow> ret p s')))))"

definition destroy_session :: "env \<Rightarrow> nat \<Rightarrow> unit comp" where
  "destroy_session E session s =
     (let status = c_destroy_session E session;
          s' = s\<lparr>calls := calls s @ [Destroy_Session session status]\<rparr>
      in if status \<noteq> 0
         then raise_exn (GMTCLibError ''Failed to destroy GMT API session'') s'
         else ret () s')"

text \<open>\<open>__enter__\<close> and \<open>__exit__\<close>; the latter ignores the exception it is given.\<close>

definition LibGMT_enter :: "env \<Rightarrow> unit comp" where
  "LibGMT_enter E =
     and_then (create_session E ''gmt-python-session'') (\<lambda>session.
       set_current_session (Some session))"

definition LibGMT_exit :: "env \<Rightarrow> exn option \<Rightarrow> unit comp" where
  "LibGMT_exit E exc =
     try_finally (and_then current_session (\<lambda>session. destroy_session E session))
       (set_current_session None)"

subsection \<open>Logging to a file\<close>

text \<open>
  \<open>NamedTemporaryFile(prefix='gmt-python-', suffix='.log', delete=False)\<close> followed by
  \<open>close()\<close>: an empty file of the name the system picks is left on disk.
\<close>

definition NamedTemporaryFile :: "env \<Rightarrow> string comp" where
  "NamedTemporaryFile E s =
     (let name = tmp_name E (files s)
      in (Inr name, s\<lparr>files := (files s)(name \<mapsto> []), tmpfiles := tmpfiles s @ [name]\<rparr>))"

text \<open>\<open>os.remove(path)\<close>\<close>

definition os_remove :: "string \<Rightarrow> unit comp" where
  "os_remove path s =
     (case files s path of
        None \<Rightarrow> raise_exn (FileNotFoundError path) s
      | Some _ \<Rightarrow> ret () (s\<lparr>files := (files s)(path := None)\<rparr>))"

text \<open>
  \<open>with open(path) as f: f.read()\<close>, on a file whose contents decode to text.
\<close>

definition read_file :: "string \<Rightarrow> string comp" where
  "read_file path s =
     (case files s path of
        None \<Rightarrow> raise_exn (FileNotFoundError path) s
      | Some text \<Rightarrow> ret text s)"

definition handle_messages :: "env \<Rightarrow> nat \<Rightarrow> int \<Rightarrow> int \<Rightarrow> string \<Rightarrow> int comp" where
  "handle_messages E session mode method logfile s =
     (case c_handle_messages E session mode method logfile (files s) of
        (status, disk) \<Rightarrow>
          (Inr status,
           s\<lparr>files := disk,
             calls := calls s @ [Handle_Messages session mode method logfile status]\<rparr>))"

text \<open>
  \<open>log_to_file\<close> is a generator under \<open>@contextmanager\<close>. \<open>log_to_file_enter\<close> is its
  code up to the \<open>yield\<close>, and \<open>log_to_file\<close> runs a \<open>with\<close> block over it: the code
  after the \<open>yield\<close>, \<open>os.remove(logfile)\<close>, runs when the block ends normally; an
  exception of the block is thrown into the generator at the \<open>yield\<close>, which has no
  handler there, and leaves the generator.
\<close>

definition log_to_file_enter :: "env \<Rightarrow> string option \<Rightarrow> string comp" where
  "log_to_file_enter E logfile_arg =
     and_then (case logfile_arg of None \<Rightarrow> NamedTemporaryFile E | Some path \<Rightarrow> ret path)
       (\<lambda>logfile.
     and_then current_session (\<lambda>session.
     and_then (get_constant E ''GMT_LOG_ONCE'') (\<lambda>log_once.
     and_then (get_constant E ''GMT_IS_FILE'') (\<lambda>is_file.
     and_then (handle_messages E session log_once is_file logfile) (\<lambda>status.
       if status \<noteq> 0
       then raise_exn (GMTCLibError
              (''Failed to set logging to file '' @ apostrophe @ logfile @ apostrophe
               @ '' (error: '' @ str_int status @ '').''))
       else ret logfile)))))"

definition log_to_file :: "env \<Rightarrow> string option \<Rightarrow> (string \<Rightarrow> 'a comp) \<Rightarrow> 'a comp" where
  "log_to_file E logfile_arg block =
     and_then (log_to_file_enter E logfile_arg) (\<lambda>logfile.
     and_then (block logfile) (\<lambda>v.
     and_then (os_remove logfile) (\<lambda>_. ret v)))"

subsection \<open>Calling a module\<close>

definition native_call_module :: "env \<Rightarrow> nat \<Rightarrow> string \<Rightarrow> int \<Rightarrow> string \<Rightarrow> int comp" where
  "native_call_module E session module_name mode args s =
     (case c_call_module E session module_name mode args (files s) of
        (status, disk) \<Rightarrow>
          (Inr status,
           s\<lparr>files := disk,
             calls := calls s @ [Call_Module session module_name mode args status]\<rparr>))"

definition call_module_msg :: "string \<Rightarrow> int \<Rightarrow> string \<Rightarrow> string" where
  "call_module_msg module_name status log =
     (if log = []
      then ''Invalid GMT module name '' @ apostrophe @ module_name @ apostrophe @ ''.''
      else str_join newline
             [apostrophe @ module_name @ apostrophe @ '' failed (error: '' @ str_int status
                @ '').'',
              ''---------- Error log ----------'',
              [],
              log,
              [],
              ''-------------------------------''])"

definition call_module :: "env \<Rightarrow> string \<Rightarrow> string \<Rightarrow> unit comp" where
  "call_module E module_name args =
     and_then (get_constant E ''GMT_MODULE_CMD'') (\<lambda>mode.
     and_then current_session (\<lambda>session.
     and_then
       (log_to_file E None (\<lambda>logfile.
          and_then (native_call_module E session module_name mode args) (\<lambda>status.
          and_then (read_file logfile) (\<lambda>text.
            ret (status, strip text)))))
       (\<lambda>(status, log).
          if status \<noteq> 0
          then raise_exn (GMTCLibError (call_module_msg module_name status log))
          else ret ())))"

subsection \<open>Creating data containers\<close>

definition parse_data_family :: "env \<Rightarrow> string \<Rightarrow> int comp" where
  "parse_data_family E family =
     (let parts = split_on CHR ''|'' family
      in if length parts > 2
         then raise_exn (GMTCLibError
                (''Too many sections in family (>2): '' @ apostrophe @ family @ apostrophe))
         else
           (let family_name = hd parts
            in if family_name \<notin> set data_families
               then raise_exn (GMTCLibError
                      (''Invalid data family '' @ apostrophe @ family_name @ apostrophe @ ''.''))
               else
                 and_then (get_constant E family_name) (\<lambda>family_value.
                 and_then
                   (if length parts = 2
                    then (let via_name = parts ! 1
                          in if via_name \<notin> set data_vias
                             then raise_exn (GMTCLibError
                                    (''Invalid data family (via) '' @ apostrophe @ via_name
                                     @ apostrophe @ ''.''))
                             else get_constant E via_name)
                    else ret 0)
                   (\<lambda>via_value. ret (family_value + via_value)))))"

text \<open>The keyword arguments that \<open>create_data\<close> reads; \<open>None\<close> is a key that is absent.\<close>

record kwargs =
  kw_dim :: "int list option"
  kw_ranges :: "c_double list option"
  kw_inc :: "c_double list option"
  kw_registration :: "int option"
  kw_pad :: "int option"

text \<open>
  Modelled from the spec: \<open>kwargs_to_ctypes_array\<close> of \<open>gmt.clib.utils\<close>, which is not
  among the sources. The spec has the wrapper marshal simple argument structures (arrays)
  into the calling convention of the native library, and \<open>create_data\<close> documents that it
  converts \<open>dim\<close>, \<open>ranges\<close> and \<open>inc\<close> to ctypes arrays if given and passes the NULL
  pointer otherwise: the result is the array of the given values, or \<open>None\<close> when the key
  is absent.
\<close>

definition kwargs_to_ctypes_array :: "'a list option \<Rightarrow> 'a list option" where
  "kwargs_to_ctypes_array given = (case given of None \<Rightarrow> None | Some xs \<Rightarrow> Some xs)"

definition native_create_data ::
  "env \<Rightarrow> nat \<Rightarrow> int \<Rightarrow> int \<Rightarrow> int \<Rightarrow> int list option \<Rightarrow> c_double list option \<Rightarrow>
   c_double list option \<Rightarrow> int \<Rightarrow> int \<Rightarrow> nat option \<Rightarrow> (nat option) comp" where
  "native_create_data E session family geometry mode dim ranges inc registration pad existing s =
     (let data_ptr =
            c_create_data E session family geometry mode dim ranges inc registration pad existing
      in (Inr data_ptr,
          s\<lparr>calls := calls s @
               [Create_Data session family geometry mode dim ranges inc registration pad
                  existing data_ptr]\<rparr>))"

text \<open>
  In \<open>kwargs.get(key, default)\<close> the default is evaluated before the lookup, so both
  constants are looked up whether or not the key is given.
\<close>

definition create_data :: "env \<Rightarrow> string \<Rightarrow> string \<Rightarrow> string \<Rightarrow> kwargs \<Rightarrow> nat comp" where
  "create_data E family geometry mode kw =
     and_then (parse_data_family E family) (\<lambda>family_int.
     and_then
       (if mode \<notin> set data_modes
        then raise_exn (GMTCLibError
               (''Invalid data creation mode '' @ apostrophe @ mode @ apostrophe @ ''.''))
        else ret ()) (\<lambda>_.
     and_then
       (if geometry \<notin> set data_geometries
        then raise_exn (GMTCLibError
               (''Invalid data geometry '' @ apostrophe @ geometry @ apostrophe @ ''.''))
        else ret ()) (\<lambda>_.
     and_then (ret (kwargs_to_ctypes_array (kw_dim kw))) (\<lambda>dim.
     and_then (ret (kwargs_to_ctypes_array (kw_ranges kw))) (\<lambda>ranges.
     and_then (ret (kwargs_to_ctypes_array (kw_inc kw))) (\<lambda>inc.
     and_then (get_constant E ''GMT_GRID_NODE_REG'') (\<lambda>reg_default.
     and_then (ret (case kw_registration kw of None \<Rightarrow> reg_default | Some r \<Rightarrow> r))
       (\<lambda>registration.
     and_then (get_constant E ''GMT_PAD_DEFAULT'') (\<lambda>pad_default.
     and_then (ret (case kw_pad kw of None \<Rightarrow> pad_default | Some p \<Rightarrow> p)) (\<lambda>pad.
     and_then current_session (\<lambda>session.
     and_then (get_constant E geometry) (\<lambda>geometry_int.
     and_then (get_constant E mode) (\<lambda>mode_int.
     and_then
       (native_create_data E session family_int geometry_int mode_int dim ranges inc
          registration pad None) (\<lambda>data_ptr.
       (case data_ptr of
          None \<Rightarrow> raise_exn (GMTCLibError ''Failed to create an empty GMT data pointer.'')
        | Some p \<Rightarrow> ret p)))))))))))))))"

subsection \<open>A small native library to run the wrapper on\<close>

text \<open>
  A table of constants and native functions with fixed answers: \<open>GMT_Handle_Messages\<close>
  answers \<open>hm_status\<close>, \<open>GMT_Call_Module\<close> answers \<open>cm_status\<close> after writing \<open>cm_log\<close>
  to the log file, \<open>GMT_Destroy_Session\<close> answers \<open>ds_status\<close>. Temporary files are
  named \<open>t.log\<close>.
\<close>

definition demo_enums :: "(string \<times> int) list" where
  "demo_enums =
     [(''GMT_PAD_DEFAULT'', 2), (''GMT_SESSION_EXTERNAL'', 2), (''GMT_MODULE_CMD'', 0),
      (''GMT_LOG_ONCE'', 1), (''GMT_IS_FILE'', 0), (''GMT_GRID_NODE_REG'', 0),
      (''GMT_IS_GRID'', 1), (''GMT_IS_MATRIX'', 5), (''GMT_VIA_MATRIX'', 100),
      (''GMT_IS_SURFACE'', 8), (''GMT_OUTPUT'', 1), (''GMT_BOGUS'', - 99999),
      (''GMT_NEGATIVE'', - 5)]"

definition demo_env :: "int \<Rightarrow> int \<Rightarrow> string \<Rightarrow> int \<Rightarrow> env" where
  "demo_env hm_status cm_status cm_log ds_status =
     \<lparr>c_get_enum = map_of demo_enums,
      c_create_session = (\<lambda>name padding session_type print_func. Some 7),
      c_destroy_session = (\<lambda>session. ds_status),
      c_handle_messages = (\<lambda>session mode method logfile disk. (hm_status, disk)),
      c_call_module = (\<lambda>session module_name mode args disk.
         (cm_status, disk(''t.log'' \<mapsto> cm_log))),
      c_create_data = (\<lambda>session family geometry mode dim ranges inc registration pad existing.
         Some 9),
      tmp_name = (\<lambda>disk. ''t.log'')\<rparr>"

text \<open>The state inside a \<open>with\<close> block: \<open>__enter__\<close> has run on a fresh object.\<close>

definition demo_state :: state where
  "demo_state = snd (LibGMT_enter (demo_env 0 0 [] 0) (init Map.empty))"

definition no_kwargs :: kwargs where
  "no_kwargs =
     \<lparr>kw_dim = None, kw_ranges = None, kw_inc = None, kw_registration = None, kw_pad = None\<rparr>"

text \<open>The native calls that a method added to the trace, given the states around it.\<close>

definition new_calls :: "state \<Rightarrow> state \<Rightarrow> native_call list" where
  "new_calls s s' = drop (length (calls s)) (calls s')"


text \<open>
  A method only adds native calls that satisfy \<open>good\<close>, whatever state it runs in and
  whether it returns or raises.
\<close>

definition all_events :: "(native_call \<Rightarrow> bool) \<Rightarrow> 'a comp \<Rightarrow> bool" where
  "all_events good m =
     (\<forall>s r s'. m s = (r, s') \<longrightarrow> (\<exists>new. calls s' = calls s @ new \<and> list_all good new))"

section \<open>Properties\<close>

subsection \<open>Looking up constants\<close>

lemma get_constant_fst:
  "fst (get_constant E name s) =
     (case c_get_enum E name of
        None \<Rightarrow> Inl (GMTCLibError (''Constant '' @ apostrophe @ name @ apostrophe
                @ '' doesn'' @ apostrophe @ ''t exits in libgmt.''))
      | Some v \<Rightarrow>
          if v = - 99999
          then Inl (GMTCLibError (''Constant '' @ apostrophe @ name @ apostrophe
                @ '' doesn'' @ apostrophe @ ''t exits in libgmt.''))
          else Inr v)"
  by (simp add: get_constant_def Let_def ret_def raise_exn_def split: option.splits)

lemma get_constant_snd:
  "snd (get_constant E name s) = s\<lparr>calls := calls s @ [Get_Enum name (c_get_enum E name)]\<rparr>"
  by (simp add: get_constant_def Let_def ret_def raise_exn_def split: option.splits)



lemma demo_state_eq:
  "demo_state =
     \<lparr>logfile_attr = None, session_id = Some 7, files = Map.empty, tmpfiles = [],
      calls = [Get_Enum ''GMT_PAD_DEFAULT'' (Some 2), Get_Enum ''GMT_SESSION_EXTERNAL'' (Some 2),
               Create_Session ''gmt-python-session'' 2 2 None (Some 7)]\<rparr>"
  by (simp add: demo_state_def LibGMT_enter_def create_session_def get_constant_def
      set_current_session_def and_then_def ret_def init_def demo_env_def demo_enums_def Let_def)

subsection \<open>Constants\<close>

text \<open>
  C6: \<open>get_constant\<close> raises \<open>GMTCLibError\<close> exactly when \<open>GMT_Get_Enum\<close> gives \<open>None\<close>
  or \<open>-99999\<close>; every other integer, negative ones too, is returned as it is.
\<close>

theorem get_constant_raises_iff:
  "((\<exists>msg. fst (get_constant E name s) = Inl (GMTCLibError msg)) \<longleftrightarrow>
      (c_get_enum E name = None \<or> c_get_enum E name = Some (- 99999))) \<and>
   (\<forall>v. c_get_enum E name = Some v \<and> v \<noteq> - 99999 \<longrightarrow>
      fst (get_constant E name s) = Inr v)"
  by (auto simp: get_constant_def ret_def raise_exn_def Let_def split: option.splits)

theorem get_constant_raises_iff_witness:
  "c_get_enum (demo_env 0 0 [] 0) ''GMT_NEGATIVE'' = Some (- 5) \<and>
   fst (get_constant (demo_env 0 0 [] 0) ''GMT_NEGATIVE'' demo_state) = Inr (- 5) \<and>
   c_get_enum (demo_env 0 0 [] 0) ''GMT_BOGUS'' = Some (- 99999) \<and>
   (\<exists>msg. fst (get_constant (demo_env 0 0 [] 0) ''GMT_BOGUS'' demo_state)
      = Inl (GMTCLibError msg))"
proof -
  have neg: "c_get_enum (demo_env 0 0 [] 0) ''GMT_NEGATIVE'' = Some (- 5)"
    by (simp add: demo_env_def demo_enums_def)
  have bogus: "c_get_enum (demo_env 0 0 [] 0) ''GMT_BOGUS'' = Some (- 99999)"
    by (simp add: demo_env_def demo_enums_def)
  from neg get_constant_raises_iff [of "demo_env 0 0 [] 0" "''GMT_NEGATIVE''" demo_state]
  have "fst (get_constant (demo_env 0 0 [] 0) ''GMT_NEGATIVE'' demo_state) = Inr (- 5)"
    by simp
  moreover
  from bogus get_constant_raises_iff [of "demo_env 0 0 [] 0" "''GMT_BOGUS''" demo_state]
  have "\<exists>msg. fst (get_constant (demo_env 0 0 [] 0) ''GMT_BOGUS'' demo_state)
      = Inl (GMTCLibError msg)"
    by simp
  ultimately show ?thesis
    using neg bogus by simp
qed

subsection \<open>The session\<close>

text \<open>
  C3: without an open session \<open>current_session\<close> raises \<open>GMTCLibNoSessionError\<close>, which
  is not a \<open>GMTCLibError\<close>, and returns no handle. That is the case on a fresh object,
  before \<open>__enter__\<close>, and after \<open>__exit__\<close>, whatever \<open>GMT_Destroy_Session\<close> answered.
\<close>

theorem current_session_closed:
  "(session_id s = None \<longrightarrow>
      (\<exists>msg. fst (current_session s) = Inl (GMTCLibNoSessionError msg))) \<and>
   (\<exists>msg. fst (current_session (init disk)) = Inl (GMTCLibNoSessionError msg)) \<and>
   (\<exists>msg. fst (current_session (snd (LibGMT_exit E exc s')))
      = Inl (GMTCLibNoSessionError msg)) \<and>
   (\<forall>msg msg'. GMTCLibNoSessionError msg \<noteq> GMTCLibError msg')"
proof -
  have closed: "\<exists>msg. fst (current_session t) = Inl (GMTCLibNoSessionError msg)"
    if "session_id t = None" for t
    using that by (simp add: current_session_def raise_exn_def)
  have "session_id (init disk) = None"
    by (simp add: init_def)
  moreover have "session_id (snd (LibGMT_exit E exc s')) = None"
    by (simp add: LibGMT_exit_def try_finally_def set_current_session_def
        split: prod.splits sum.splits)
  ultimately show ?thesis
    using closed by blast
qed

theorem current_session_closed_witness:
  "fst (LibGMT_exit (demo_env 0 0 [] 1) None demo_state)
     = Inl (GMTCLibError ''Failed to destroy GMT API session'') \<and>
   (\<exists>msg. fst (current_session (snd (LibGMT_exit (demo_env 0 0 [] 1) None demo_state)))
      = Inl (GMTCLibNoSessionError msg)) \<and>
   session_id (init Map.empty) = None \<and>
   (\<exists>msg. fst (current_session (init Map.empty)) = Inl (GMTCLibNoSessionError msg))"
proof -
  have "fst (LibGMT_exit (demo_env 0 0 [] 1) None demo_state)
     = Inl (GMTCLibError ''Failed to destroy GMT API session'')"
    by (simp add: demo_state_eq LibGMT_exit_def try_finally_def set_current_session_def
        current_session_def destroy_session_def and_then_def ret_def raise_exn_def
        demo_env_def Let_def)
  moreover have "session_id (init Map.empty) = None"
    by (simp add: init_def)
  ultimately show ?thesis
    using current_session_closed [of "init Map.empty" Map.empty "demo_env 0 0 [] 1" None
        demo_state]
    by simp
qed

text \<open>
  C5: with a session open, \<open>__exit__\<close> calls \<open>GMT_Destroy_Session\<close> on it and leaves the
  stored session \<open>None\<close>, whether it was given an exception or not and whether the native
  call answered zero or made \<open>destroy_session\<close> raise.
\<close>

theorem exit_destroys_and_clears:
  "session_id s = Some h \<Longrightarrow>
   LibGMT_exit E exc s =
     (if c_destroy_session E h \<noteq> 0
      then Inl (GMTCLibError ''Failed to destroy GMT API session'') else Inr (),
      s\<lparr>session_id := None, calls := calls s @ [Destroy_Session h (c_destroy_session E h)]\<rparr>)"
  by (simp add: LibGMT_exit_def try_finally_def set_current_session_def current_session_def
      destroy_session_def and_then_def ret_def raise_exn_def Let_def)

theorem exit_destroys_and_clears_witness:
  "session_id demo_state = Some 7 \<and>
   fst (LibGMT_exit (demo_env 0 0 [] 1) (Some (FileNotFoundError ''x'')) demo_state)
     = Inl (GMTCLibError ''Failed to destroy GMT API session'') \<and>
   session_id (snd (LibGMT_exit (demo_env 0 0 [] 1) (Some (FileNotFoundError ''x''))
     demo_state)) = None \<and>
   new_calls demo_state (snd (LibGMT_exit (demo_env 0 0 [] 1) (Some (FileNotFoundError ''x''))
     demo_state)) = [Destroy_Session 7 1]"
proof -
  have open_session: "session_id demo_state = Some 7"
    by (simp add: demo_state_eq)
  have status: "c_destroy_session (demo_env 0 0 [] 1) 7 = 1"
    by (simp add: demo_env_def)
  show ?thesis
    using open_session
      exit_destroys_and_clears [OF open_session, of "demo_env 0 0 [] 1"
        "Some (FileNotFoundError ''x'')"]
    by (simp add: status new_calls_def)
qed

subsection \<open>Data families\<close>

text \<open>
  C7: \<open>_parse_data_family\<close> splits the family at \<open>|\<close>. More than two parts, a first part
  outside \<open>data_families\<close>, or a second part outside \<open>data_vias\<close> raise \<open>GMTCLibError\<close>.
  Otherwise the result is what \<open>get_constant\<close> gives for the family part plus what it
  gives for the via part, or plus 0 without a via part; an exception of \<open>get_constant\<close>
  is passed on.
\<close>

theorem parse_data_family_result:
  "(let parts = split_on CHR ''|'' family;
        outcome = fst (parse_data_family E family s)
    in (length parts > 2 \<or> hd parts \<notin> set data_families \<or>
          (length parts = 2 \<and> parts ! 1 \<notin> set data_vias)
          \<longrightarrow> (\<exists>msg. outcome = Inl (GMTCLibError msg))) \<and>
       (\<not> (length parts > 2 \<or> hd parts \<notin> set data_families \<or>
             (length parts = 2 \<and> parts ! 1 \<notin> set data_vias))
          \<longrightarrow> outcome =
                (case fst (get_constant E (hd parts) s) of
                   Inl e \<Rightarrow> Inl e
                 | Inr family_value \<Rightarrow>
                     (if length parts = 2
                      then (case fst (get_constant E (parts ! 1) s) of
                              Inl e \<Rightarrow> Inl e
                            | Inr via_value \<Rightarrow> Inr (family_value + via_value))
                      else Inr (family_value + 0)))))"
  by (auto simp: parse_data_family_def Let_def and_then_def ret_def raise_exn_def
      get_constant_def split: option.splits)


theorem parse_data_family_result_witness:
  "fst (parse_data_family (demo_env 0 0 [] 0) ''GMT_IS_MATRIX|GMT_VIA_MATRIX'' demo_state)
     = Inr 105 \<and>
   fst (parse_data_family (demo_env 0 0 [] 0) ''GMT_IS_GRID'' demo_state) = Inr 1 \<and>
   (\<exists>msg. fst (parse_data_family (demo_env 0 0 [] 0) ''GMT_IS_GRID|GMT_VIA_BOGUS'' demo_state)
      = Inl (GMTCLibError msg)) \<and>
   (\<exists>msg. fst (parse_data_family (demo_env 0 0 [] 0) ''GMT_IS_TEXTSET'' demo_state)
      = Inl (GMTCLibError msg))"
proof -
  have "fst (parse_data_family (demo_env 0 0 [] 0) ''GMT_IS_MATRIX|GMT_VIA_MATRIX'' demo_state)
     = Inr 105"
    using parse_data_family_result [of "''GMT_IS_MATRIX|GMT_VIA_MATRIX''" "demo_env 0 0 [] 0"
        demo_state]
    by (simp add: Let_def data_families_def data_vias_def get_constant_fst demo_env_def
        demo_enums_def)
  moreover have "fst (parse_data_family (demo_env 0 0 [] 0) ''GMT_IS_GRID'' demo_state)
     = Inr 1"
    using parse_data_family_result [of "''GMT_IS_GRID''" "demo_env 0 0 [] 0" demo_state]
    by (simp add: Let_def data_families_def data_vias_def get_constant_fst demo_env_def
        demo_enums_def)
  moreover have "\<exists>msg. fst (parse_data_family (demo_env 0 0 [] 0)
      ''GMT_IS_GRID|GMT_VIA_BOGUS'' demo_state) = Inl (GMTCLibError msg)"
    using parse_data_family_result [of "''GMT_IS_GRID|GMT_VIA_BOGUS''" "demo_env 0 0 [] 0"
        demo_state]
    by (simp add: Let_def data_families_def data_vias_def)
  moreover have "\<exists>msg. fst (parse_data_family (demo_env 0 0 [] 0) ''GMT_IS_TEXTSET''
      demo_state) = Inl (GMTCLibError msg)"
    using parse_data_family_result [of "''GMT_IS_TEXTSET''" "demo_env 0 0 [] 0" demo_state]
    by (simp add: Let_def data_families_def data_vias_def)
  ultimately show ?thesis
    by simp
qed

subsection \<open>Creating data: validation\<close>

lemma get_constant_calls:
  "get_constant E name s = (r, s') \<Longrightarrow>
   s' = s\<lparr>calls := calls s @ [Get_Enum name (c_get_enum E name)]\<rparr>"
  using get_constant_snd [of E name s] by simp












subsection \<open>Creating data: the native call\<close>

lemma all_events_ret: "all_events good (ret v)"
  by (simp add: all_events_def ret_def)

lemma all_events_raise_exn: "all_events good (raise_exn e)"
  by (simp add: all_events_def raise_exn_def)

lemma all_events_if:
  "all_events good a \<Longrightarrow> all_events good b \<Longrightarrow> all_events good (if c then a else b)"
  by simp

lemma all_events_and_then:
  assumes m: "all_events good m"
    and f: "\<And>v s s1. m s = (Inr v, s1) \<Longrightarrow> all_events good (f v)"
  shows "all_events good (and_then m f)"
  unfolding all_events_def
proof (intro allI impI)
  fix s r s'
  assume run: "and_then m f s = (r, s')"
  show "\<exists>new. calls s' = calls s @ new \<and> list_all good new"
  proof (cases "m s")
    case (Pair r1 s1)
    from m Pair obtain n1 where n1: "calls s1 = calls s @ n1" "list_all good n1"
      unfolding all_events_def by blast
    show ?thesis
    proof (cases r1)
      case (Inl e)
      with Pair run have "s' = s1"
        by (simp add: and_then_def)
      with n1 show ?thesis by blast
    next
      case (Inr v)
      with Pair run have "f v s1 = (r, s')"
        by (simp add: and_then_def)
      moreover from Pair Inr have "all_events good (f v)"
        by (auto intro: f)
      ultimately obtain n2 where "calls s' = calls s1 @ n2" "list_all good n2"
        unfolding all_events_def by blast
      with n1 have "calls s' = calls s @ (n1 @ n2) \<and> list_all good (n1 @ n2)"
        by simp
      then show ?thesis by blast
    qed
  qed
qed

lemma all_events_current_session: "all_events good current_session"
  by (simp add: all_events_def current_session_def ret_def raise_exn_def split: option.splits)

lemma all_events_get_constant:
  "good (Get_Enum name (c_get_enum E name)) \<Longrightarrow> all_events good (get_constant E name)"
  by (auto simp: all_events_def dest!: get_constant_calls)

lemma all_events_parse_data_family:
  assumes "\<And>name v. good (Get_Enum name v)"
  shows "all_events good (parse_data_family E family)"
  unfolding parse_data_family_def Let_def
  by (intro all_events_if all_events_and_then all_events_raise_exn all_events_ret
      all_events_get_constant assms)

lemma all_events_native_create_data:
  assumes "\<And>res. good (Create_Data session family geometry mode dim ranges inc registration
     pad existing res)"
  shows "all_events good (native_create_data E session family geometry mode dim ranges inc
     registration pad existing)"
  using assms by (simp add: all_events_def native_create_data_def Let_def)

lemma all_events_new_calls:
  "all_events good m \<Longrightarrow> list_all good (new_calls s (snd (m s)))"
  unfolding all_events_def new_calls_def
  by (metis append_eq_conv_conj prod.collapse)

lemma kwargs_to_ctypes_array_id: "kwargs_to_ctypes_array given = given"
  by (simp add: kwargs_to_ctypes_array_def split: option.splits)

lemma get_constant_value:
  "get_constant E name s = (Inr v, s') \<Longrightarrow> fst (get_constant E name t) = Inr v"
  using get_constant_fst [of E name s] get_constant_fst [of E name t] by simp

lemma create_data_events:
  assumes enum: "\<And>name v. good (Get_Enum name v)"
    and create: "\<And>session family_int geometry_int mode_int reg_default pad_default res.
      fst (get_constant E ''GMT_GRID_NODE_REG'' t) = Inr reg_default \<Longrightarrow>
      fst (get_constant E ''GMT_PAD_DEFAULT'' t) = Inr pad_default \<Longrightarrow>
      good (Create_Data session family_int geometry_int mode_int (kw_dim kw) (kw_ranges kw)
        (kw_inc kw) (case kw_registration kw of None \<Rightarrow> reg_default | Some r \<Rightarrow> r)
        (case kw_pad kw of None \<Rightarrow> pad_default | Some p \<Rightarrow> p) None res)"
  shows "all_events good (create_data E family geometry mode kw)"
  unfolding create_data_def
  apply (intro all_events_and_then all_events_if all_events_raise_exn all_events_ret
      all_events_parse_data_family all_events_get_constant all_events_current_session
      all_events_native_create_data enum)
  subgoal
    apply (clarsimp simp: ret_def kwargs_to_ctypes_array_id)
    apply (rule create)
     apply (erule get_constant_value)+
    done
  subgoal
    by (simp add: all_events_ret all_events_raise_exn split: option.splits)
  done

text \<open>
  C10: in the call of \<open>GMT_Create_Data\<close> that \<open>create_data\<close> makes, \<open>dim\<close>,
  \<open>ranges\<close> and \<open>inc\<close> are NULL when absent from the keyword arguments,
  \<open>registration\<close> is the value of \<open>GMT_GRID_NODE_REG\<close> and \<open>pad\<close> the value of
  \<open>GMT_PAD_DEFAULT\<close> when not given, and the existing data pointer is NULL.
\<close>

theorem create_data_arguments:
  assumes "Create_Data session family_int geometry_int mode_int dim ranges inc registration
      pad existing res \<in> set (new_calls s (snd (create_data E family geometry mode kw s)))"
  shows "(kw_dim kw = None \<longrightarrow> dim = None) \<and>
     (kw_ranges kw = None \<longrightarrow> ranges = None) \<and>
     (kw_inc kw = None \<longrightarrow> inc = None) \<and>
     (kw_registration kw = None \<longrightarrow>
        fst (get_constant E ''GMT_GRID_NODE_REG'' s) = Inr registration) \<and>
     (kw_pad kw = None \<longrightarrow> fst (get_constant E ''GMT_PAD_DEFAULT'' s) = Inr pad) \<and>
     existing = None"
proof -
  let ?good = "\<lambda>c. case c of
      Create_Data h f g m d rg i reg p ex r \<Rightarrow>
        d = kw_dim kw \<and> rg = kw_ranges kw \<and> i = kw_inc kw \<and>
        (kw_registration kw = None \<longrightarrow>
           fst (get_constant E ''GMT_GRID_NODE_REG'' s) = Inr reg) \<and>
        (kw_pad kw = None \<longrightarrow> fst (get_constant E ''GMT_PAD_DEFAULT'' s) = Inr p) \<and>
        ex = None
    | _ \<Rightarrow> True"
  have "all_events ?good (create_data E family geometry mode kw)"
    by (rule create_data_events [where t = s]) simp_all
  then have "list_all ?good (new_calls s (snd (create_data E family geometry mode kw s)))"
    by (rule all_events_new_calls)
  with assms have "?good (Create_Data session family_int geometry_int mode_int dim ranges inc
      registration pad existing res)"
    unfolding list_all_iff by blast
  then show ?thesis
    by simp
qed

theorem create_data_arguments_witness:
  "new_calls demo_state (snd (create_data (demo_env 0 0 [] 0) ''GMT_IS_MATRIX|GMT_VIA_MATRIX''
     ''GMT_IS_SURFACE'' ''GMT_OUTPUT'' no_kwargs demo_state))
     = [Get_Enum ''GMT_IS_MATRIX'' (Some 5), Get_Enum ''GMT_VIA_MATRIX'' (Some 100),
        Get_Enum ''GMT_GRID_NODE_REG'' (Some 0), Get_Enum ''GMT_PAD_DEFAULT'' (Some 2),
        Get_Enum ''GMT_IS_SURFACE'' (Some 8), Get_Enum ''GMT_OUTPUT'' (Some 1),
        Create_Data 7 105 8 1 None None None 0 2 None (Some 9)] \<and>
   kw_dim no_kwargs = None \<and> kw_ranges no_kwargs = None \<and> kw_inc no_kwargs = None \<and>
   kw_registration no_kwargs = None \<and> kw_pad no_kwargs = None \<and>
   fst (get_constant (demo_env 0 0 [] 0) ''GMT_GRID_NODE_REG'' demo_state) = Inr 0 \<and>
   fst (get_constant (demo_env 0 0 [] 0) ''GMT_PAD_DEFAULT'' demo_state) = Inr 2"
proof -
  have run: "new_calls demo_state (snd (create_data (demo_env 0 0 [] 0)
     ''GMT_IS_MATRIX|GMT_VIA_MATRIX'' ''GMT_IS_SURFACE'' ''GMT_OUTPUT'' no_kwargs demo_state))
     = [Get_Enum ''GMT_IS_MATRIX'' (Some 5), Get_Enum ''GMT_VIA_MATRIX'' (Some 100),
        Get_Enum ''GMT_GRID_NODE_REG'' (Some 0), Get_Enum ''GMT_PAD_DEFAULT'' (Some 2),
        Get_Enum ''GMT_IS_SURFACE'' (Some 8), Get_Enum ''GMT_OUTPUT'' (Some 1),
        Create_Data 7 105 8 1 None None None 0 2 None (Some 9)]"
    by (simp add: create_data_def parse_data_family_def get_constant_def and_then_def ret_def
        raise_exn_def Let_def demo_state_eq demo_env_def demo_enums_def data_families_def
        data_vias_def data_modes_def data_geometries_def new_calls_def current_session_def
        native_create_data_def kwargs_to_ctypes_array_def no_kwargs_def)
  have kw: "kw_dim no_kwargs = None" "kw_ranges no_kwargs = None" "kw_inc no_kwargs = None"
    "kw_registration no_kwargs = None" "kw_pad no_kwargs = None"
    by (simp_all add: no_kwargs_def)
  have "Create_Data 7 105 8 1 None None None 0 2 None (Some 9)
      \<in> set (new_calls demo_state (snd (create_data (demo_env 0 0 [] 0)
         ''GMT_IS_MATRIX|GMT_VIA_MATRIX'' ''GMT_IS_SURFACE'' ''GMT_OUTPUT'' no_kwargs
         demo_state)))"
    by (simp add: run)
  from create_data_arguments [OF this] kw run show ?thesis
    by simp
qed


subsection \<open>Calling a module\<close>

lemma get_constant_run:
  "fst (get_constant E name t) = Inr v \<Longrightarrow>
   get_constant E name s = (Inr v, s\<lparr>calls := calls s @ [Get_Enum name (Some v)]\<rparr>)"
  using get_constant_fst [of E name t]
  by (auto simp: get_constant_def Let_def ret_def split: option.splits if_splits)

lemma log_to_file_enter_tmp:
  assumes session: "session_id s = Some h"
    and log_once: "fst (get_constant E ''GMT_LOG_ONCE'' s) = Inr log_once"
    and is_file: "fst (get_constant E ''GMT_IS_FILE'' s) = Inr is_file"
    and hm: "c_handle_messages E h log_once is_file (tmp_name E (files s))
       ((files s)(tmp_name E (files s) \<mapsto> [])) = (status, disk_hm)"
  shows "log_to_file_enter E None s =
     (if status \<noteq> 0
      then Inl (GMTCLibError
             (''Failed to set logging to file '' @ apostrophe @ tmp_name E (files s)
              @ apostrophe @ '' (error: '' @ str_int status @ '').''))
      else Inr (tmp_name E (files s)),
      s\<lparr>files := disk_hm, tmpfiles := tmpfiles s @ [tmp_name E (files s)],
        calls := calls s @
          [Get_Enum ''GMT_LOG_ONCE'' (Some log_once), Get_Enum ''GMT_IS_FILE'' (Some is_file),
           Handle_Messages h log_once is_file (tmp_name E (files s)) status]\<rparr>)"
  unfolding log_to_file_enter_def
  by (simp add: NamedTemporaryFile_def Let_def and_then_def current_session_def session
      get_constant_run [OF log_once] get_constant_run [OF is_file] handle_messages_def hm
      raise_exn_def ret_def)

lemma call_module_run:
  assumes session: "session_id s = Some h"
    and mode: "fst (get_constant E ''GMT_MODULE_CMD'' s) = Inr mode"
    and log_once: "fst (get_constant E ''GMT_LOG_ONCE'' s) = Inr log_once"
    and is_file: "fst (get_constant E ''GMT_IS_FILE'' s) = Inr is_file"
    and hm: "c_handle_messages E h log_once is_file (tmp_name E (files s))
       ((files s)(tmp_name E (files s) \<mapsto> [])) = (0, disk_hm)"
    and cm: "c_call_module E h module_name mode args disk_hm = (status, disk_cm)"
    and log: "disk_cm (tmp_name E (files s)) = Some log_text"
  shows "call_module E module_name args s =
     (if status \<noteq> 0
      then Inl (GMTCLibError (call_module_msg module_name status (strip log_text)))
      else Inr (),
      s\<lparr>files := disk_cm(tmp_name E (files s) := None),
        tmpfiles := tmpfiles s @ [tmp_name E (files s)],
        calls := calls s @
          [Get_Enum ''GMT_MODULE_CMD'' (Some mode), Get_Enum ''GMT_LOG_ONCE'' (Some log_once),
           Get_Enum ''GMT_IS_FILE'' (Some is_file),
           Handle_Messages h log_once is_file (tmp_name E (files s)) 0,
           Call_Module h module_name mode args status]\<rparr>)"
proof -
  let ?s1 = "s\<lparr>calls := calls s @ [Get_Enum ''GMT_MODULE_CMD'' (Some mode)]\<rparr>"
  have enter: "log_to_file_enter E None ?s1 =
     (Inr (tmp_name E (files s)),
      ?s1\<lparr>files := disk_hm, tmpfiles := tmpfiles s @ [tmp_name E (files s)],
        calls := calls ?s1 @
          [Get_Enum ''GMT_LOG_ONCE'' (Some log_once), Get_Enum ''GMT_IS_FILE'' (Some is_file),
           Handle_Messages h log_once is_file (tmp_name E (files s)) 0]\<rparr>)"
    using log_to_file_enter_tmp [of ?s1 h E log_once is_file 0 disk_hm]
      session hm get_constant_run [OF log_once, of ?s1] get_constant_run [OF is_file, of ?s1]
    by simp
  show ?thesis
    unfolding call_module_def
    by (simp add: and_then_def get_constant_run [OF mode] current_session_def session
        log_to_file_def enter native_call_module_def cm read_file_def log os_remove_def
        ret_def raise_exn_def)
qed


lemma call_module_msg_contains:
  "log \<noteq> [] \<Longrightarrow> sublist log (call_module_msg module_name status log)"
proof -
  assume "log \<noteq> []"
  then have "call_module_msg module_name status log =
      (apostrophe @ module_name @ apostrophe @ '' failed (error: '' @ str_int status
         @ '').'' @ newline @ ''---------- Error log ----------'' @ newline @ newline)
      @ log @ (newline @ newline @ ''-------------------------------'')"
    by (simp add: call_module_msg_def)
  then show ?thesis
    unfolding sublist_def by blast
qed

text \<open>
  C4, as amended: once logging is set up (a session is open, the three constants exist and
  \<open>GMT_Handle_Messages\<close> answered 0) and the log file can be read after the module ran,
  \<open>call_module\<close> raises \<open>GMTCLibError\<close> exactly when \<open>GMT_Call_Module\<close> answered a
  non-zero status; a non-empty log text is part of the message; on status zero
  \<open>call_module\<close> returns.
\<close>

theorem call_module_raises_iff:
  assumes session: "session_id s = Some h"
    and mode: "fst (get_constant E ''GMT_MODULE_CMD'' s) = Inr mode"
    and log_once: "fst (get_constant E ''GMT_LOG_ONCE'' s) = Inr log_once"
    and is_file: "fst (get_constant E ''GMT_IS_FILE'' s) = Inr is_file"
    and hm: "c_handle_messages E h log_once is_file (tmp_name E (files s))
       ((files s)(tmp_name E (files s) \<mapsto> [])) = (0, disk_hm)"
    and cm: "c_call_module E h module_name mode args disk_hm = (status, disk_cm)"
    and log: "disk_cm (tmp_name E (files s)) = Some log_text"
  shows "((\<exists>msg. fst (call_module E module_name args s) = Inl (GMTCLibError msg))
        \<longleftrightarrow> status \<noteq> 0) \<and>
     (status = 0 \<longrightarrow> fst (call_module E module_name args s) = Inr ()) \<and>
     (status \<noteq> 0 \<longrightarrow>
        fst (call_module E module_name args s)
          = Inl (GMTCLibError (call_module_msg module_name status (strip log_text)))) \<and>
     (strip log_text \<noteq> [] \<longrightarrow>
        sublist (strip log_text) (call_module_msg module_name status (strip log_text))) \<and>
     Call_Module h module_name mode args status
       \<in> set (new_calls s (snd (call_module E module_name args s)))"
  by (simp add: call_module_run [OF assms] new_calls_def call_module_msg_contains)

theorem call_module_raises_iff_witness:
  "fst (call_module (demo_env 0 72 '' bad thing  '' 0) ''figure'' ''x'' demo_state)
     = Inl (GMTCLibError (call_module_msg ''figure'' 72 ''bad thing'')) \<and>
   sublist ''bad thing'' (call_module_msg ''figure'' 72 ''bad thing'') \<and>
   fst (call_module (demo_env 0 0 '' bad thing  '' 0) ''figure'' ''x'' demo_state) = Inr () \<and>
   Call_Module 7 ''figure'' 0 ''x'' 72
     \<in> set (new_calls demo_state
         (snd (call_module (demo_env 0 72 '' bad thing  '' 0) ''figure'' ''x'' demo_state)))"
proof -
  have strip: "strip '' bad thing  '' = ''bad thing''"
    by (simp add: strip_def is_space_def)
  have failing: "((\<exists>msg. fst (call_module (demo_env 0 72 '' bad thing  '' 0) ''figure'' ''x''
          demo_state) = Inl (GMTCLibError msg)) \<longleftrightarrow> (72::int) \<noteq> 0) \<and>
     ((72::int) = 0 \<longrightarrow> fst (call_module (demo_env 0 72 '' bad thing  '' 0) ''figure'' ''x''
          demo_state) = Inr ()) \<and>
     ((72::int) \<noteq> 0 \<longrightarrow>
        fst (call_module (demo_env 0 72 '' bad thing  '' 0) ''figure'' ''x'' demo_state)
          = Inl (GMTCLibError (call_module_msg ''figure'' 72 (strip '' bad thing  '')))) \<and>
     (strip '' bad thing  '' \<noteq> [] \<longrightarrow>
        sublist (strip '' bad thing  '')
          (call_module_msg ''figure'' 72 (strip '' bad thing  ''))) \<and>
     Call_Module 7 ''figure'' 0 ''x'' 72
       \<in> set (new_calls demo_state
         (snd (call_module (demo_env 0 72 '' bad thing  '' 0) ''figure'' ''x'' demo_state)))"
    by (rule call_module_raises_iff [where log_once = 1 and is_file = 0
          and disk_hm = "[''t.log'' \<mapsto> []]" and disk_cm = "[''t.log'' \<mapsto> '' bad thing  '']"])
      (simp_all add: demo_state_eq demo_env_def demo_enums_def get_constant_fst)
  have passing: "((\<exists>msg. fst (call_module (demo_env 0 0 '' bad thing  '' 0) ''figure'' ''x''
          demo_state) = Inl (GMTCLibError msg)) \<longleftrightarrow> (0::int) \<noteq> 0) \<and>
     ((0::int) = 0 \<longrightarrow> fst (call_module (demo_env 0 0 '' bad thing  '' 0) ''figure'' ''x''
          demo_state) = Inr ()) \<and>
     ((0::int) \<noteq> 0 \<longrightarrow>
        fst (call_module (demo_env 0 0 '' bad thing  '' 0) ''figure'' ''x'' demo_state)
          = Inl (GMTCLibError (call_module_msg ''figure'' 0 (strip '' bad thing  '')))) \<and>
     (strip '' bad thing  '' \<noteq> [] \<longrightarrow>
        sublist (strip '' bad thing  '')
          (call_module_msg ''figure'' 0 (strip '' bad thing  ''))) \<and>
     Call_Module 7 ''figure'' 0 ''x'' 0
       \<in> set (new_calls demo_state
         (snd (call_module (demo_env 0 0 '' bad thing  '' 0) ''figure'' ''x'' demo_state)))"
    by (rule call_module_raises_iff [where log_once = 1 and is_file = 0
          and disk_hm = "[''t.log'' \<mapsto> []]" and disk_cm = "[''t.log'' \<mapsto> '' bad thing  '']"])
      (simp_all add: demo_state_eq demo_env_def demo_enums_def get_constant_fst)
  from failing passing strip show ?thesis
    by simp
qed


text \<open>
  C4 as stated fails: when \<open>GMT_Handle_Messages\<close> answers a non-zero status,
  \<open>log_to_file\<close> raises \<open>GMTCLibError\<close> and \<open>GMT_Call_Module\<close> is never called.
\<close>

theorem call_module_raises_before_module:
  "fst (call_module (demo_env 1 0 [] 0) ''figure'' ''x'' demo_state)
     = Inl (GMTCLibError (''Failed to set logging to file '' @ apostrophe @ ''t.log''
         @ apostrophe @ '' (error: 1).'')) \<and>
   new_calls demo_state (snd (call_module (demo_env 1 0 [] 0) ''figure'' ''x'' demo_state))
     = [Get_Enum ''GMT_MODULE_CMD'' (Some 0), Get_Enum ''GMT_LOG_ONCE'' (Some 1),
        Get_Enum ''GMT_IS_FILE'' (Some 0), Handle_Messages 7 1 0 ''t.log'' 1]"
proof -
  have "str_int 1 = ''1''"
    by code_simp
  then show ?thesis
    by (simp add: call_module_def log_to_file_def log_to_file_enter_def NamedTemporaryFile_def
        handle_messages_def get_constant_def current_session_def and_then_def ret_def
        raise_exn_def Let_def demo_state_eq demo_env_def demo_enums_def new_calls_def)
qed

text \<open>
  C8: when \<open>GMT_Call_Module\<close> answers a non-zero status and the text read from the log
  file is empty after stripping, the message of the \<open>GMTCLibError\<close> says that the module
  name is invalid, whatever the status was.
\<close>

theorem call_module_empty_log_message:
  assumes session: "session_id s = Some h"
    and mode: "fst (get_constant E ''GMT_MODULE_CMD'' s) = Inr mode"
    and log_once: "fst (get_constant E ''GMT_LOG_ONCE'' s) = Inr log_once"
    and is_file: "fst (get_constant E ''GMT_IS_FILE'' s) = Inr is_file"
    and hm: "c_handle_messages E h log_once is_file (tmp_name E (files s))
       ((files s)(tmp_name E (files s) \<mapsto> [])) = (0, disk_hm)"
    and cm: "c_call_module E h module_name mode args disk_hm = (status, disk_cm)"
    and log: "disk_cm (tmp_name E (files s)) = Some log_text"
    and failed: "status \<noteq> 0"
    and empty: "strip log_text = []"
  shows "fst (call_module E module_name args s)
     = Inl (GMTCLibError
         (''Invalid GMT module name '' @ apostrophe @ module_name @ apostrophe @ ''.''))"
  using failed empty
  by (simp add: call_module_run [OF session mode log_once is_file hm cm log]
      call_module_msg_def)

theorem call_module_empty_log_message_witness:
  "strip [CHR '' '', CHR 0x0A] = [] \<and>
   fst (call_module (demo_env 0 72 [CHR '' '', CHR 0x0A] 0) ''figure'' ''-R0/5/0/10''
     demo_state)
     = Inl (GMTCLibError
         (''Invalid GMT module name '' @ apostrophe @ ''figure'' @ apostrophe @ ''.''))"
proof -
  have empty: "strip [CHR '' '', CHR 0x0A] = []"
    by (simp add: strip_def is_space_def)
  have "fst (call_module (demo_env 0 72 [CHR '' '', CHR 0x0A] 0) ''figure'' ''-R0/5/0/10''
     demo_state)
     = Inl (GMTCLibError
         (''Invalid GMT module name '' @ apostrophe @ ''figure'' @ apostrophe @ ''.''))"
    by (rule call_module_empty_log_message [where h = 7 and mode = 0 and log_once = 1
          and is_file = 0 and status = 72 and log_text = "[CHR '' '', CHR 0x0A]"
          and disk_hm = "[''t.log'' \<mapsto> []]"
          and disk_cm = "[''t.log'' \<mapsto> [CHR '' '', CHR 0x0A]]"])
      (simp_all add: demo_state_eq demo_env_def demo_enums_def get_constant_fst empty)
  with empty show ?thesis
    by simp
qed

subsection \<open>The log file\<close>

text \<open>
  When the module ran and the log was read, the temporary file is gone when
  \<open>call_module\<close> ends, on either status.
\<close>

lemma call_module_removes_log:
  assumes "session_id s = Some h"
    and "fst (get_constant E ''GMT_MODULE_CMD'' s) = Inr mode"
    and "fst (get_constant E ''GMT_LOG_ONCE'' s) = Inr log_once"
    and "fst (get_constant E ''GMT_IS_FILE'' s) = Inr is_file"
    and "c_handle_messages E h log_once is_file (tmp_name E (files s))
       ((files s)(tmp_name E (files s) \<mapsto> [])) = (0, disk_hm)"
    and "c_call_module E h module_name mode args disk_hm = (status, disk_cm)"
    and "disk_cm (tmp_name E (files s)) = Some log_text"
  shows "tmpfiles (snd (call_module E module_name args s))
       = tmpfiles s @ [tmp_name E (files s)] \<and>
     files (snd (call_module E module_name args s)) (tmp_name E (files s)) = None"
  by (simp add: call_module_run [OF assms])

text \<open>
  C1 fails on the code: \<open>log_to_file\<close> has no handler around its \<open>yield\<close> and none around
  the set-up before it. When \<open>GMT_Handle_Messages\<close> answers a non-zero status the
  temporary file has been created, \<open>call_module\<close> raises, and the file is still on disk.
\<close>

theorem call_module_leaves_log_file:
  "fst (call_module (demo_env 2 0 [] 0) ''figure'' ''x'' demo_state)
     = Inl (GMTCLibError (''Failed to set logging to file '' @ apostrophe @ ''t.log''
         @ apostrophe @ '' (error: 2).'')) \<and>
   tmpfiles (snd (call_module (demo_env 2 0 [] 0) ''figure'' ''x'' demo_state)) = [''t.log''] \<and>
   files (snd (call_module (demo_env 2 0 [] 0) ''figure'' ''x'' demo_state)) ''t.log''
     = Some []"
proof -
  have "str_int 2 = ''2''"
    by code_simp
  then show ?thesis
    by (simp add: call_module_def log_to_file_def log_to_file_enter_def NamedTemporaryFile_def
        handle_messages_def get_constant_def current_session_def and_then_def ret_def
        raise_exn_def Let_def demo_state_eq demo_env_def demo_enums_def)
qed

text \<open>
  C9: given a path, \<open>log_to_file\<close> creates no temporary file, and when the block ends
  normally \<open>os.remove\<close> deletes the file of that path: it is gone afterwards, and where it
  was there the context ends normally with only that file removed.
\<close>

theorem log_to_file_given_path:
  "tmpfiles (snd (log_to_file_enter E (Some path) s)) = tmpfiles s \<and>
   (log_to_file_enter E (Some path) s = (Inr logfile, s_in) \<and>
    block logfile s_in = (Inr v, s_out) \<longrightarrow>
      logfile = path \<and>
      log_to_file E (Some path) block s =
        (case files s_out path of
           None \<Rightarrow> (Inl (FileNotFoundError path), s_out)
         | Some _ \<Rightarrow> (Inr v, s_out\<lparr>files := (files s_out)(path := None)\<rparr>)) \<and>
      files (snd (log_to_file E (Some path) block s)) path = None \<and>
      tmpfiles (snd (log_to_file E (Some path) block s)) = tmpfiles s_out)"
proof -
  have enter: "tmpfiles s1 = tmpfiles s \<and> (\<forall>lf. r = Inr lf \<longrightarrow> lf = path)"
    if "log_to_file_enter E (Some path) s = (r, s1)" for r s1
    using that
    by (auto simp: log_to_file_enter_def and_then_def ret_def raise_exn_def
        current_session_def handle_messages_def
        split: option.splits prod.splits sum.splits if_splits
        dest!: get_constant_calls)
  have "tmpfiles (snd (log_to_file_enter E (Some path) s)) = tmpfiles s"
    using enter [of "fst (log_to_file_enter E (Some path) s)"
        "snd (log_to_file_enter E (Some path) s)"]
    by simp
  moreover have "logfile = path \<and>
      log_to_file E (Some path) block s =
        (case files s_out path of
           None \<Rightarrow> (Inl (FileNotFoundError path), s_out)
         | Some _ \<Rightarrow> (Inr v, s_out\<lparr>files := (files s_out)(path := None)\<rparr>)) \<and>
      files (snd (log_to_file E (Some path) block s)) path = None \<and>
      tmpfiles (snd (log_to_file E (Some path) block s)) = tmpfiles s_out"
    if run: "log_to_file_enter E (Some path) s = (Inr logfile, s_in)"
      "block logfile s_in = (Inr v, s_out)"
  proof -
    from enter [OF run(1)] have same: "logfile = path"
      by simp
    with run have "log_to_file E (Some path) block s =
        (case files s_out path of
           None \<Rightarrow> (Inl (FileNotFoundError path), s_out)
         | Some _ \<Rightarrow> (Inr v, s_out\<lparr>files := (files s_out)(path := None)\<rparr>))"
      by (simp add: log_to_file_def and_then_def os_remove_def ret_def raise_exn_def
          split: option.splits)
    with same show ?thesis
      by (simp split: option.splits)
  qed
  ultimately show ?thesis
    by blast
qed

theorem log_to_file_given_path_witness:
  "log_to_file_enter (demo_env 0 0 [] 0) (Some ''my.log'')
     (demo_state\<lparr>files := [''my.log'' \<mapsto> ''kept'']\<rparr>)
     = (Inr ''my.log'',
        demo_state\<lparr>files := [''my.log'' \<mapsto> ''kept''],
          calls := calls demo_state @
            [Get_Enum ''GMT_LOG_ONCE'' (Some 1), Get_Enum ''GMT_IS_FILE'' (Some 0),
             Handle_Messages 7 1 0 ''my.log'' 0]\<rparr>) \<and>
   fst (log_to_file (demo_env 0 0 [] 0) (Some ''my.log'') (\<lambda>logfile. ret logfile)
     (demo_state\<lparr>files := [''my.log'' \<mapsto> ''kept'']\<rparr>)) = Inr ''my.log'' \<and>
   files (snd (log_to_file (demo_env 0 0 [] 0) (Some ''my.log'') (\<lambda>logfile. ret logfile)
     (demo_state\<lparr>files := [''my.log'' \<mapsto> ''kept'']\<rparr>))) ''my.log'' = None \<and>
   tmpfiles (snd (log_to_file (demo_env 0 0 [] 0) (Some ''my.log'') (\<lambda>logfile. ret logfile)
     (demo_state\<lparr>files := [''my.log'' \<mapsto> ''kept'']\<rparr>))) = []"
proof -
  let ?s = "demo_state\<lparr>files := [''my.log'' \<mapsto> ''kept'']\<rparr>"
  let ?s_in = "demo_state\<lparr>files := [''my.log'' \<mapsto> ''kept''],
          calls := calls demo_state @
            [Get_Enum ''GMT_LOG_ONCE'' (Some 1), Get_Enum ''GMT_IS_FILE'' (Some 0),
             Handle_Messages 7 1 0 ''my.log'' 0]\<rparr>"
  have enter: "log_to_file_enter (demo_env 0 0 [] 0) (Some ''my.log'') ?s
     = (Inr ''my.log'', ?s_in)"
    by (simp add: log_to_file_enter_def handle_messages_def get_constant_def
        current_session_def and_then_def ret_def raise_exn_def Let_def demo_state_eq
        demo_env_def demo_enums_def)
  have block: "(\<lambda>logfile. ret logfile) ''my.log'' ?s_in = (Inr ''my.log'', ?s_in)"
    by (simp add: ret_def)
  from log_to_file_given_path [of "demo_env 0 0 [] 0" "''my.log''" ?s "''my.log''" ?s_in
      "\<lambda>logfile. ret logfile" "''my.log''" ?s_in] enter block
  show ?thesis
    by (simp add: demo_state_eq)
qed

end
